theory Spec2Isabelle
  imports Main
begin

section \<open>Values of the script\<close>

text \<open>
  The script handles values that come out of parsed JSON responses and out of form
  inputs. Primitive values are compared by \<open>===\<close>, which on primitives is equality of
  the values; numbers are the integers (JSON cannot carry NaN, and the two zeros are
  equal under \<open>===\<close>). Strings are byte sequences (UTF-8), so a string is empty in the
  model exactly when it is empty in the script.

  Appliance identifiers are primitives: an identifier that is an array or an object
  would be compared by reference, which this development does not model.
\<close>

datatype prim = JUndefined | JNull | JBool bool | JNum int | JStr string

datatype jsval = Prim prim | JArr "jsval list" | JObj "(string \<times> jsval) list"

text \<open>Truthiness, as used by \<open>!v\<close>, \<open>a || b\<close> and \<open>if (v)\<close>.\<close>

fun truthy_prim :: "prim \<Rightarrow> bool" where
  "truthy_prim JUndefined = False"
| "truthy_prim JNull = False"
| "truthy_prim (JBool b) = b"
| "truthy_prim (JNum n) = (n \<noteq> 0)"
| "truthy_prim (JStr s) = (s \<noteq> [])"

fun truthy :: "jsval \<Rightarrow> bool" where
  "truthy (Prim p) = truthy_prim p"
| "truthy (JArr xs) = True"
| "truthy (JObj kvs) = True"

text \<open>The test of \<open>a ?? b\<close>: the left operand is \<open>null\<close> or \<open>undefined\<close>.\<close>

fun nullish :: "jsval \<Rightarrow> bool" where
  "nullish (Prim JUndefined) = True"
| "nullish (Prim JNull) = True"
| "nullish v = False"

text \<open>
  Reading a property whose name is neither an index nor a built-in member (the script
  reads \<open>estimated_kwh_per_year\<close>, \<open>raw_text\<close> and \<open>message\<close>) from a value that is
  not \<open>null\<close> or \<open>undefined\<close>. An object is the list of its own properties, each key
  once; every other value has no such property.
\<close>

fun getprop :: "jsval \<Rightarrow> string \<Rightarrow> jsval" where
  "getprop (JObj kvs) k = (case map_of kvs k of None \<Rightarrow> Prim JUndefined | Some v \<Rightarrow> v)"
| "getprop v k = Prim JUndefined"

text \<open>Conversion to a string, as performed when a value is assigned to
  \<open>textContent\<close> or passed to \<open>alert\<close>.\<close>

definition digit_char :: "nat \<Rightarrow> char" where
  "digit_char d = char_of (48 + d)"

fun decimal :: "nat \<Rightarrow> string" where
  "decimal n = (if n < 10 then [digit_char n] else decimal (n div 10) @ [digit_char (n mod 10)])"

definition int_string :: "int \<Rightarrow> string" where
  "int_string i = (if i < 0 then CHR ''-'' # decimal (nat (- i)) else decimal (nat i))"

fun toString_prim :: "prim \<Rightarrow> string" where
  "toString_prim JUndefined = ''undefined''"
| "toString_prim JNull = ''null''"
| "toString_prim (JBool b) = (if b then ''true'' else ''false'')"
| "toString_prim (JNum n) = int_string n"
| "toString_prim (JStr s) = s"

fun join_comma :: "string list \<Rightarrow> string" where
  "join_comma [] = []"
| "join_comma [s] = s"
| "join_comma (s # t # ss) = s @ '','' @ join_comma (t # ss)"

text \<open>\<open>string_of el v\<close>: the string of \<open>v\<close>; with \<open>el\<close> set, \<open>v\<close> is an element of
  an array being joined, where \<open>null\<close> and \<open>undefined\<close> give the empty string.\<close>

fun string_of :: "bool \<Rightarrow> jsval \<Rightarrow> string" where
  "string_of el (Prim p) =
     (if el \<and> (p = JNull \<or> p = JUndefined) then [] else toString_prim p)"
| "string_of el (JArr xs) = join_comma (map (string_of True) xs)"
| "string_of el (JObj kvs) = ''[object Object]''"

definition toString :: "jsval \<Rightarrow> string" where
  "toString v = string_of False v"

section \<open>State and effects\<close>

text \<open>
  The page state the script reads and writes, and a trace of what it does to the
  outside: the requests it issues, the alerts it shows, the files it hands to the
  user, and the rejections of its asynchronous handlers that nothing catches.
\<close>

type_synonym blob = string

datatype meth = GET | POST

datatype part = TextField string string | FileField string blob string

text \<open>\<open>JsonBody v\<close> is the body \<open>JSON.stringify(v)\<close> sent as \<open>application/json\<close>.\<close>

datatype body = NoBody | FormData "part list" | JsonBody jsval

datatype error = NetworkError | SyntaxError | TypeError

datatype event =
  Request meth string body
| Alert string
| Download string blob
| Rejected error

text \<open>\<open>JsonText v\<close> is the text \<open>JSON.stringify(v)\<close> put on the page.\<close>

datatype content = Plain string | JsonText jsval

record appliance =
  id_field :: prim
  name :: string
  price :: int
  energy_kwh :: int

record state =
  selectedForCompare :: "prim list"
  appliances :: "appliance list"
  highlighted :: "bool list"
  detected :: string
  raw :: content
  compareResult :: content
  trace :: "event list"

text \<open>What \<open>fetch\<close> resolves to: the status flag, the body parsed as JSON (\<open>None\<close>
  when the body is not JSON, so that \<open>res.json()\<close> rejects) and the body as bytes.
  The outcome of \<open>fetch\<close> is \<open>None\<close> when the exchange itself fails.\<close>

record response =
  res_ok :: bool
  res_json :: "jsval option"
  res_blob :: blob

definition API_BASE :: string where
  "API_BASE = ''/api''"

definition emit :: "event \<Rightarrow> state \<Rightarrow> state" where
  "emit e st = st\<lparr>trace := trace st @ [e]\<rparr>"

definition alert :: "string \<Rightarrow> state \<Rightarrow> state" where
  "alert msg st = emit (Alert msg) st"

text \<open>JavaScript array access: a read out of range gives \<open>undefined\<close>, a write out of
  range extends the array (the holes read as \<open>undefined\<close>).\<close>

definition js_index :: "prim list \<Rightarrow> nat \<Rightarrow> prim" where
  "js_index xs i = (if i < length xs then xs ! i else JUndefined)"

definition js_assign :: "prim list \<Rightarrow> nat \<Rightarrow> prim \<Rightarrow> prim list" where
  "js_assign xs i v =
     (if i < length xs then xs[i := v]
      else xs @ replicate (i - length xs) JUndefined @ [v])"

section \<open>The list of appliances\<close>

text \<open>\<open>fetchList\<close> issues its request at once and continues when the response
  arrives; \<open>fetchList_response\<close> is that continuation, \<open>renderList\<close> included: every
  item is rendered anew, without a mark.\<close>

definition fetchList_request :: "state \<Rightarrow> state" where
  "fetchList_request st = emit (Request GET (API_BASE @ ''/list_appliances'') NoBody) st"

definition renderList :: "state \<Rightarrow> state" where
  "renderList st = st\<lparr>highlighted := replicate (length (appliances st)) False\<rparr>"

definition fetchList_response :: "error + appliance list \<Rightarrow> state \<Rightarrow> state" where
  "fetchList_response r st =
     (case r of
        Inl e \<Rightarrow> emit (Rejected e) st
      | Inr data \<Rightarrow> renderList (st\<lparr>appliances := data\<rparr>))"

section \<open>The selection\<close>

definition highlightSelected :: "state \<Rightarrow> state" where
  "highlightSelected st =
     st\<lparr>highlighted :=
          map (\<lambda>idx. if idx < length (appliances st)
                      then List.member (selectedForCompare st) (id_field (appliances st ! idx))
                      else highlighted st ! idx)
              [0 ..< length (highlighted st)]\<rparr>"

text \<open>\<open>toggleSlot(slot, id, btn)\<close>; the button is not used by the body.\<close>

definition toggleSlot :: "nat \<Rightarrow> prim \<Rightarrow> state \<Rightarrow> state" where
  "toggleSlot slot ident st =
     highlightSelected (fetchList_request
       (st\<lparr>selectedForCompare :=
             (if js_index (selectedForCompare st) slot = ident
              then js_assign (selectedForCompare st) slot JNull
              else js_assign (selectedForCompare st) slot ident)\<rparr>))"

text \<open>A sequence of toggles, each a slot index with an identifier, as the buttons
  \<open>Slot A\<close> (index 0) and \<open>Slot B\<close> (index 1) of the rendered items produce them.\<close>

fun toggles :: "(nat \<times> prim) list \<Rightarrow> state \<Rightarrow> state" where
  "toggles [] st = st"
| "toggles ((slot, ident) # ts) st = toggles ts (toggleSlot slot ident st)"

text \<open>\<open>keeps_apart ts st\<close>: along the sequence \<open>ts\<close> run from \<open>st\<close>, every toggle is
  on slot 0 or 1 and its identifier is not the one the other slot holds at that
  moment.\<close>

fun keeps_apart :: "(nat \<times> prim) list \<Rightarrow> state \<Rightarrow> bool" where
  "keeps_apart [] st = True"
| "keeps_apart ((slot, ident) # ts) st =
     (slot < 2 \<and> js_index (selectedForCompare st) (1 - slot) \<noteq> ident
      \<and> keeps_apart ts (toggleSlot slot ident st))"

text \<open>The state when the script has been loaded: both slots empty, no appliance
  cached, the first list request issued. The page's own initial texts are given.\<close>

definition init_state :: "string \<Rightarrow> content \<Rightarrow> content \<Rightarrow> state" where
  "init_state d r c =
     fetchList_request
       \<lparr>selectedForCompare = [JNull, JNull], appliances = [], highlighted = [],
        detected = d, raw = r, compareResult = c, trace = []\<rparr>"

text \<open>What a handler run from \<open>st\<close> to \<open>st'\<close> added to the trace, and the requests
  among some events.\<close>

definition new_events :: "state \<Rightarrow> state \<Rightarrow> event list" where
  "new_events st st' = drop (length (trace st)) (trace st')"

fun is_request :: "event \<Rightarrow> bool" where
  "is_request (Request m u b) = True"
| "is_request e = False"

section \<open>Comparison\<close>

text \<open>In the body \<open>JSON.stringify({ids: selectedForCompare})\<close> an array element that is
  \<open>undefined\<close> is written as \<open>null\<close>.\<close>

fun ids_element :: "prim \<Rightarrow> jsval" where
  "ids_element JUndefined = Prim JNull"
| "ids_element p = Prim p"

definition displayCompare :: "jsval \<Rightarrow> state \<Rightarrow> state" where
  "displayCompare data st = st\<lparr>compareResult := JsonText data\<rparr>"

text \<open>The handlers that wait for a response take the outcome of their \<open>fetch\<close> as an
  argument; a handler whose \<open>await\<close> rejects stops there, with what it did before.\<close>

definition compareBtn_onclick :: "response option \<Rightarrow> state \<Rightarrow> state" where
  "compareBtn_onclick net st =
     (if \<not> truthy_prim (js_index (selectedForCompare st) 0)
         \<or> \<not> truthy_prim (js_index (selectedForCompare st) 1)
      then alert ''Choose two appliances using Slot A and Slot B'' st
      else
        let st1 = emit (Request POST (API_BASE @ ''/compare'')
                    (JsonBody (JObj [(''ids'', JArr (map ids_element (selectedForCompare st)))]))) st
        in case net of
             None \<Rightarrow> emit (Rejected NetworkError) st1
           | Some res \<Rightarrow>
               (case res_json res of
                  None \<Rightarrow> emit (Rejected SyntaxError) st1
                | Some json \<Rightarrow> displayCompare json st1))"

section \<open>Report\<close>

definition exportPdfBtn_onclick :: "response option \<Rightarrow> state \<Rightarrow> state" where
  "exportPdfBtn_onclick net st =
     (let st1 = emit (Request GET (API_BASE @ ''/export_pdf'') NoBody) st
      in case net of
           None \<Rightarrow> emit (Rejected NetworkError) st1
         | Some res \<Rightarrow>
             if \<not> res_ok res then alert ''PDF export failed'' st1
             else emit (Download ''WattCompare_Report.pdf'' (res_blob res)) st1)"

section \<open>Extraction\<close>

text \<open>The placeholder is the one character U+2014, three bytes in UTF-8.\<close>

definition placeholder :: string where
  "placeholder = [CHR 0xE2, CHR 0x80, CHR 0x94]"

definition sendBlobForOcr :: "blob \<Rightarrow> response option \<Rightarrow> state \<Rightarrow> (error + jsval) \<times> state" where
  "sendBlobForOcr blob net st =
     (let st1 = emit (Request POST (API_BASE @ ''/ocr'')
                  (FormData [FileField ''image'' blob ''capture.jpg''])) st
      in case net of
           None \<Rightarrow> (Inl NetworkError, st1)
         | Some res \<Rightarrow>
             (case res_json res of
                None \<Rightarrow> (Inl SyntaxError, st1)
              | Some json \<Rightarrow> (Inr json, st1)))"

definition handleOcrResult :: "jsval \<Rightarrow> state \<Rightarrow> state" where
  "handleOcrResult res st =
     (if \<not> truthy res then st
      else
        let st1 = st\<lparr>detected :=
                    (if nullish (getprop res ''estimated_kwh_per_year'') then placeholder
                     else toString (getprop res ''estimated_kwh_per_year''))\<rparr>
        in st1\<lparr>raw :=
                 (if truthy (getprop res ''raw_text'')
                  then Plain (toString (getprop res ''raw_text''))
                  else JsonText res)\<rparr>)"

text \<open>\<open>captureBtn.onclick\<close>, from the moment the canvas hands over its image
  (\<open>None\<close>: it has none), and \<open>uploadInput.onchange\<close> with the file chosen
  (\<open>None\<close>: no file).\<close>

definition captureBtn_onclick :: "blob option \<Rightarrow> response option \<Rightarrow> state \<Rightarrow> state" where
  "captureBtn_onclick blob net st =
     (case blob of
        None \<Rightarrow> st
      | Some b \<Rightarrow>
          (case sendBlobForOcr b net st of
             (Inl e, st1) \<Rightarrow> emit (Rejected e) st1
           | (Inr result, st1) \<Rightarrow> handleOcrResult result st1))"

definition uploadInput_onchange :: "blob option \<Rightarrow> response option \<Rightarrow> state \<Rightarrow> state" where
  "uploadInput_onchange file net st =
     (case file of
        None \<Rightarrow> st
      | Some f \<Rightarrow>
          (case sendBlobForOcr f net st of
             (Inl e, st1) \<Rightarrow> emit (Rejected e) st1
           | (Inr result, st1) \<Rightarrow> handleOcrResult result st1))"

section \<open>Saving an appliance\<close>

text \<open>The four arguments are the texts of the inputs \<open>name\<close>, \<open>price\<close>, \<open>rate\<close> and
  \<open>manualAec\<close>. A price or rate left empty is the number \<open>0\<close>, sent as \<open>0\<close>.\<close>

definition saveBtn_onclick ::
  "string \<Rightarrow> string \<Rightarrow> string \<Rightarrow> string \<Rightarrow> response option \<Rightarrow> state \<Rightarrow> state" where
  "saveBtn_onclick nameValue priceValue rateValue manualValue net st =
     (let name = (if nameValue \<noteq> [] then nameValue else ''Unnamed'');
          price = (if priceValue \<noteq> [] then priceValue else ''0'');
          rate = (if rateValue \<noteq> [] then rateValue else ''0'');
          manual = (if manualValue \<noteq> [] then manualValue else []);
          aec = (if manual \<noteq> [] then manual
                 else if detected st \<noteq> [] then detected st else [])
      in if aec = [] then alert ''Please provide AEC (detected or manual)'' st
         else
           let st1 = emit (Request POST (API_BASE @ ''/add_appliance'')
                       (FormData [TextField ''name'' name, TextField ''price'' price,
                                  TextField ''energy_rate'' rate, TextField ''aec'' aec])) st
           in case net of
                None \<Rightarrow> emit (Rejected NetworkError) st1
              | Some res \<Rightarrow>
                  (case res_json res of
                     None \<Rightarrow> emit (Rejected SyntaxError) st1
                   | Some json \<Rightarrow>
                       if nullish json then emit (Rejected TypeError) st1
                       else fetchList_request
                              (alert (if truthy (getprop json ''message'')
                                      then toString (getprop json ''message'')
                                      else ''Saved'') st1)))"

text \<open>The value the specification has Add submit: the manual entry when it is not
  empty, the detected value otherwise.\<close>

definition spec_resolved_aec :: "string \<Rightarrow> string \<Rightarrow> string" where
  "spec_resolved_aec manual det = (if manual \<noteq> [] then manual else det)"

text \<open>The write request of Add, for the texts of the three inputs and the value sent
  as \<open>aec\<close>.\<close>

definition save_request :: "string \<Rightarrow> string \<Rightarrow> string \<Rightarrow> string \<Rightarrow> event" where
  "save_request n p r aec =
     Request POST ''/api/add_appliance''
       (FormData [TextField ''name'' (if n \<noteq> [] then n else ''Unnamed''),
                  TextField ''price'' (if p \<noteq> [] then p else ''0''),
                  TextField ''energy_rate'' (if r \<noteq> [] then r else ''0''),
                  TextField ''aec'' aec])"

section \<open>Properties of the selection\<close>

lemma js_index_assign_same: "js_index (js_assign xs i v) i = v"
  by (simp add: js_index_def js_assign_def nth_append)

lemma js_index_assign_other: "t \<noteq> i \<Longrightarrow> js_index (js_assign xs i v) t = js_index xs t"
  by (auto simp add: js_index_def js_assign_def nth_append)

lemma selected_toggleSlot:
  "selectedForCompare (toggleSlot s x st) =
     (if js_index (selectedForCompare st) s = x
      then js_assign (selectedForCompare st) s JNull
      else js_assign (selectedForCompare st) s x)"
  by (simp add: toggleSlot_def highlightSelected_def fetchList_request_def emit_def)

lemma selected_init: "selectedForCompare (init_state d r c) = [JNull, JNull]"
  by (simp add: init_state_def fetchList_request_def emit_def)

lemma slot_after_toggle:
  "js_index (selectedForCompare (toggleSlot s x st)) s =
     (if js_index (selectedForCompare st) s = x then JNull else x)"
  by (simp add: selected_toggleSlot js_index_assign_same)

lemma other_slot_after_toggle:
  "t \<noteq> s \<Longrightarrow>
   js_index (selectedForCompare (toggleSlot s x st)) t = js_index (selectedForCompare st) t"
  by (simp add: selected_toggleSlot js_index_assign_other)

text \<open>
  C9. A toggle on slot \<open>s\<close> with any identifier leaves every other slot of the
  selection as it was: slot \<open>t\<close>, for \<open>t\<close> other than \<open>s\<close>, reads the same value after
  the toggle as before it.
\<close>

theorem toggle_frame:
  "t \<noteq> s \<Longrightarrow>
   js_index (selectedForCompare (toggleSlot s x st)) t = js_index (selectedForCompare st) t"
  by (simp add: selected_toggleSlot js_index_assign_other)

theorem toggle_frame_witness:
  "(1::nat) \<noteq> 0 \<and>
   js_index (selectedForCompare (toggleSlot 0 (JNum 7)
      (toggleSlot 1 (JNum 5) (init_state [] (Plain []) (Plain []))))) 1 = JNum 5"
  using toggle_frame [of 1 0 "JNum 7" "toggleSlot 1 (JNum 5) (init_state [] (Plain []) (Plain []))"]
  by (simp add: selected_toggleSlot selected_init js_index_def js_assign_def)

text \<open>
  C1, as stated, fails in a state whose slot A already holds \<open>x\<close>: the first toggle
  empties slot A. With slot A holding 1, toggling 1 in slot A and then in slot B leaves
  slot A empty.
\<close>

theorem toggle_both_slots_counterexample:
  "js_index (selectedForCompare (toggleSlot 1 (JNum 1) (toggleSlot 0 (JNum 1)
      (toggleSlot 0 (JNum 1) (init_state [] (Plain []) (Plain [])))))) 0 \<noteq> JNum 1"
  by (simp add: selected_toggleSlot selected_init js_index_def js_assign_def)

text \<open>
  C1, amended. In every selection state in which neither slot A nor slot B holds \<open>x\<close>,
  toggling \<open>x\<close> in slot A and then in slot B leaves both slots holding \<open>x\<close>: the toggle
  does not keep an identifier out of a slot because the other slot holds it.
\<close>

theorem toggle_both_slots_duplicates:
  assumes "js_index (selectedForCompare st) 0 \<noteq> x"
    and "js_index (selectedForCompare st) 1 \<noteq> x"
  shows "js_index (selectedForCompare (toggleSlot 1 x (toggleSlot 0 x st))) 0 = x
       \<and> js_index (selectedForCompare (toggleSlot 1 x (toggleSlot 0 x st))) 1 = x"
  using assms by (simp add: slot_after_toggle other_slot_after_toggle)

theorem toggle_both_slots_duplicates_witness:
  "js_index (selectedForCompare (init_state [] (Plain []) (Plain []))) 0 \<noteq> JNum 1
   \<and> js_index (selectedForCompare (init_state [] (Plain []) (Plain []))) 1 \<noteq> JNum 1
   \<and> js_index (selectedForCompare (toggleSlot 1 (JNum 1) (toggleSlot 0 (JNum 1)
        (init_state [] (Plain []) (Plain []))))) 0 = JNum 1
   \<and> js_index (selectedForCompare (toggleSlot 1 (JNum 1) (toggleSlot 0 (JNum 1)
        (init_state [] (Plain []) (Plain []))))) 1 = JNum 1"
  using toggle_both_slots_duplicates [of "init_state [] (Plain []) (Plain [])" "JNum 1"]
  by (simp add: selected_init js_index_def)

text \<open>
  C3, as stated, fails in a state whose slot \<open>s\<close> already holds \<open>x\<close>: the first toggle
  empties the slot and the second selects \<open>x\<close> again. With slot A holding 1, toggling 1
  in slot A twice leaves slot A holding 1.
\<close>

theorem toggle_twice_counterexample:
  "js_index (selectedForCompare (toggleSlot 0 (JNum 1) (toggleSlot 0 (JNum 1)
      (toggleSlot 0 (JNum 1) (init_state [] (Plain []) (Plain [])))))) 0 \<noteq> JNull"
  by (simp add: selected_toggleSlot selected_init js_index_def js_assign_def)

text \<open>
  C3, amended. Toggling the same identifier \<open>x\<close> in the same slot \<open>s\<close> twice leaves
  slot \<open>s\<close> empty when it did not hold \<open>x\<close> before, and holding \<open>x\<close> again when it
  did.
\<close>

theorem toggle_twice_same_slot:
  "js_index (selectedForCompare (toggleSlot s x (toggleSlot s x st))) s =
     (if js_index (selectedForCompare st) s = x then x else JNull)"
  by (simp add: slot_after_toggle)

theorem toggle_twice_same_slot_witness:
  "js_index (selectedForCompare (toggleSlot 1 (JNum 4) (toggleSlot 1 (JNum 4)
      (init_state [] (Plain []) (Plain []))))) 1 = JNull"
  using toggle_twice_same_slot [of 1 "JNum 4" "init_state [] (Plain []) (Plain [])"]
  by (simp add: selected_init js_index_def)

text \<open>
  C2, as stated, fails: from the initial state, toggling 1 in slot A and then in slot B
  reaches a state in which identifier 1 occupies both slots.
\<close>

theorem duplicate_occupancy_reachable:
  "js_index (selectedForCompare (toggles [(0, JNum 1), (1, JNum 1)]
      (init_state [] (Plain []) (Plain [])))) 0 = JNum 1
   \<and> js_index (selectedForCompare (toggles [(0, JNum 1), (1, JNum 1)]
      (init_state [] (Plain []) (Plain [])))) 1 = JNum 1"
  by (simp add: selected_toggleSlot selected_init js_index_def js_assign_def)

lemma apart_step:
  assumes "s < 2" and "js_index (selectedForCompare st) (1 - s) \<noteq> x"
  shows "js_index (selectedForCompare (toggleSlot s x st)) 0
           = js_index (selectedForCompare (toggleSlot s x st)) 1
         \<longrightarrow> js_index (selectedForCompare (toggleSlot s x st)) 0 = JNull"
proof -
  from assms(1) consider "s = 0" | "s = 1" by linarith
  then show ?thesis
  proof cases
    case 1
    with assms(2) show ?thesis
      by (auto simp add: slot_after_toggle other_slot_after_toggle)
  next
    case 2
    with assms(2) show ?thesis
      by (auto simp add: slot_after_toggle other_slot_after_toggle)
  qed
qed

lemma apart_toggles:
  "keeps_apart ts st \<Longrightarrow>
   js_index (selectedForCompare st) 0 = js_index (selectedForCompare st) 1
     \<longrightarrow> js_index (selectedForCompare st) 0 = JNull \<Longrightarrow>
   js_index (selectedForCompare (toggles ts st)) 0 = js_index (selectedForCompare (toggles ts st)) 1
     \<longrightarrow> js_index (selectedForCompare (toggles ts st)) 0 = JNull"
proof (induction ts arbitrary: st)
  case Nil
  then show ?case by simp
next
  case (Cons t ts)
  obtain s x where t: "t = (s, x)" by (cases t)
  from Cons.prems(1) t have "s < 2" "js_index (selectedForCompare st) (1 - s) \<noteq> x"
    "keeps_apart ts (toggleSlot s x st)" by simp_all
  then show ?case using Cons.IH [of "toggleSlot s x st"] apart_step [of s st x] t by simp
qed

text \<open>
  C2, amended. In every selection state reached from the initial state by a sequence
  of toggles on slots A and B in which no toggle names the identifier that the other
  slot holds at that moment, an appliance identifier occupies at most one of the two
  slots. (Nothing in the toggle itself prevents such a toggle.)
\<close>

theorem keeps_apart_at_most_one_slot:
  assumes "keeps_apart ts (init_state d r c)" and "x \<noteq> JNull"
  shows "\<not> (js_index (selectedForCompare (toggles ts (init_state d r c))) 0 = x
          \<and> js_index (selectedForCompare (toggles ts (init_state d r c))) 1 = x)"
  using apart_toggles [OF assms(1)] assms(2) by (auto simp add: selected_init js_index_def)

theorem keeps_apart_at_most_one_slot_witness:
  "keeps_apart [(0, JNum 1), (1, JNum 2), (0, JNum 1), (0, JNum 3)]
     (init_state [] (Plain []) (Plain []))
   \<and> JNum 2 \<noteq> JNull
   \<and> \<not> (js_index (selectedForCompare (toggles [(0, JNum 1), (1, JNum 2), (0, JNum 1), (0, JNum 3)]
            (init_state [] (Plain []) (Plain [])))) 0 = JNum 2
        \<and> js_index (selectedForCompare (toggles [(0, JNum 1), (1, JNum 2), (0, JNum 1), (0, JNum 3)]
            (init_state [] (Plain []) (Plain [])))) 1 = JNum 2)"
  using keeps_apart_at_most_one_slot
    [of "[(0, JNum 1), (1, JNum 2), (0, JNum 1), (0, JNum 3)]" "[]" "Plain []" "Plain []" "JNum 2"]
  by (simp add: selected_toggleSlot selected_init js_index_def js_assign_def)

section \<open>Properties of the handlers\<close>

lemma new_events_append: "trace st' = trace st @ es \<Longrightarrow> new_events st st' = es"
  by (simp add: new_events_def)

lemma new_events_emit: "new_events st (emit e st) = [e]"
  by (simp add: new_events_def emit_def)

lemma detected_init: "detected (init_state d r c) = d"
  by (simp add: init_state_def fetchList_request_def emit_def)

lemma selected_two_toggles:
  "selectedForCompare (toggles [(0, a), (1, b)] (init_state d r c)) = [a, b]"
  by (simp add: selected_toggleSlot selected_init js_index_def js_assign_def)

text \<open>
  C4. The claim holds of the code but for one case: a slot that holds an identifier
  which is falsy in JavaScript (the number 0, the empty string, \<open>false\<close>) is taken for
  an empty slot by the test of Compare, while the toggle takes only \<open>null\<close> for empty.
  With slot A holding the identifier 0, Compare is rejected with the message and
  issues no exchange, whatever slot B holds.
\<close>

theorem compare_rejects_zero_id:
  "selectedForCompare st = [JNum 0, idB] \<Longrightarrow>
   new_events st (compareBtn_onclick net st)
     = [Alert ''Choose two appliances using Slot A and Slot B'']"
  by (simp add: compareBtn_onclick_def alert_def new_events_emit js_index_def)

theorem compare_rejects_zero_id_witness:
  "selectedForCompare (toggles [(0, JNum 0), (1, JNum 1)] (init_state [] (Plain []) (Plain [])))
     = [JNum 0, JNum 1]
   \<and> new_events (toggles [(0, JNum 0), (1, JNum 1)] (init_state [] (Plain []) (Plain [])))
        (compareBtn_onclick (Some \<lparr>res_ok = True, res_json = Some (JObj []), res_blob = []\<rparr>)
           (toggles [(0, JNum 0), (1, JNum 1)] (init_state [] (Plain []) (Plain []))))
     = [Alert ''Choose two appliances using Slot A and Slot B'']"
proof -
  have s: "selectedForCompare
      (toggles [(0, JNum 0), (1, JNum 1)] (init_state [] (Plain []) (Plain [])))
      = [JNum 0, JNum 1]"
    by (rule selected_two_toggles)
  show ?thesis by (rule conjI [OF s compare_rejects_zero_id [OF s]])
qed

text \<open>
  C6. With slot A holding \<open>idA\<close> and slot B holding \<open>idB\<close>, the requests that Compare
  issues are: exactly one, to the compare endpoint, whose body is the payload
  \<open>{ids: [idA, idB]}\<close> in slot order, when both identifiers are truthy; none when
  one of them is falsy (as the identifier 0 is).
\<close>

theorem compare_request_payload:
  assumes "selectedForCompare st = [idA, idB]"
  shows "filter is_request (new_events st (compareBtn_onclick net st)) =
     (if truthy_prim idA \<and> truthy_prim idB
      then [Request POST ''/api/compare'' (JsonBody (JObj [(''ids'', JArr [Prim idA, Prim idB])]))]
      else [])"
proof -
  have el: "truthy_prim p \<Longrightarrow> ids_element p = Prim p" for p
    by (cases p) simp_all
  show ?thesis using assms
    by (auto simp add: compareBtn_onclick_def alert_def emit_def new_events_def js_index_def
        displayCompare_def API_BASE_def el Let_def split: option.splits)
qed

theorem compare_request_payload_witness:
  "selectedForCompare (toggles [(0, JNum 1), (1, JNum 2)] (init_state [] (Plain []) (Plain [])))
     = [JNum 1, JNum 2]
   \<and> filter is_request
        (new_events (toggles [(0, JNum 1), (1, JNum 2)] (init_state [] (Plain []) (Plain [])))
           (compareBtn_onclick (Some \<lparr>res_ok = True, res_json = Some (JObj []), res_blob = []\<rparr>)
              (toggles [(0, JNum 1), (1, JNum 2)] (init_state [] (Plain []) (Plain [])))))
     = [Request POST ''/api/compare''
          (JsonBody (JObj [(''ids'', JArr [Prim (JNum 1), Prim (JNum 2)])]))]"
proof -
  have s: "selectedForCompare
      (toggles [(0, JNum 1), (1, JNum 2)] (init_state [] (Plain []) (Plain [])))
      = [JNum 1, JNum 2]"
    by (rule selected_two_toggles)
  have "truthy_prim (JNum 1) \<and> truthy_prim (JNum 2)" by simp
  with compare_request_payload [OF s,
      of "Some \<lparr>res_ok = True, res_json = Some (JObj []), res_blob = []\<rparr>"]
  have "filter is_request
        (new_events (toggles [(0, JNum 1), (1, JNum 2)] (init_state [] (Plain []) (Plain [])))
           (compareBtn_onclick (Some \<lparr>res_ok = True, res_json = Some (JObj []), res_blob = []\<rparr>)
              (toggles [(0, JNum 1), (1, JNum 2)] (init_state [] (Plain []) (Plain [])))))
     = [Request POST ''/api/compare''
          (JsonBody (JObj [(''ids'', JArr [Prim (JNum 1), Prim (JNum 2)])]))]"
    by (simp del: toggles.simps)
  with s show ?thesis by (rule conjI)
qed

text \<open>
  C7. When the export exchange returns a response whose status is not a success, the
  handler shows the message \<open>PDF export failed\<close> and hands over no file; when the
  status is a success, it hands the body of the response to the user as a file named
  \<open>WattCompare_Report.pdf\<close>.
\<close>

theorem export_outcome:
  "(\<not> res_ok res \<longrightarrow>
      new_events st (exportPdfBtn_onclick (Some res) st) =
        [Request GET ''/api/export_pdf'' NoBody, Alert ''PDF export failed''])
   \<and> (res_ok res \<longrightarrow>
      new_events st (exportPdfBtn_onclick (Some res) st) =
        [Request GET ''/api/export_pdf'' NoBody,
         Download ''WattCompare_Report.pdf'' (res_blob res)])"
  by (simp add: exportPdfBtn_onclick_def alert_def emit_def new_events_def API_BASE_def)

theorem export_outcome_witness:
  "\<not> res_ok \<lparr>res_ok = False, res_json = None, res_blob = ''Internal Server Error''\<rparr>
   \<and> new_events (init_state [] (Plain []) (Plain []))
        (exportPdfBtn_onclick
           (Some \<lparr>res_ok = False, res_json = None, res_blob = ''Internal Server Error''\<rparr>)
           (init_state [] (Plain []) (Plain [])))
      = [Request GET ''/api/export_pdf'' NoBody, Alert ''PDF export failed'']
   \<and> res_ok \<lparr>res_ok = True, res_json = None, res_blob = ''%PDF-1.4''\<rparr>
   \<and> new_events (init_state [] (Plain []) (Plain []))
        (exportPdfBtn_onclick
           (Some \<lparr>res_ok = True, res_json = None, res_blob = ''%PDF-1.4''\<rparr>)
           (init_state [] (Plain []) (Plain [])))
      = [Request GET ''/api/export_pdf'' NoBody, Download ''WattCompare_Report.pdf'' ''%PDF-1.4'']"
  using export_outcome
    [of "\<lparr>res_ok = False, res_json = None, res_blob = ''Internal Server Error''\<rparr>"
        "init_state [] (Plain []) (Plain [])"]
    export_outcome
    [of "\<lparr>res_ok = True, res_json = None, res_blob = ''%PDF-1.4''\<rparr>"
        "init_state [] (Plain []) (Plain [])"]
  by simp

lemma save_rejected:
  "manual = [] \<Longrightarrow> detected st = [] \<Longrightarrow>
   saveBtn_onclick n p r manual net st = alert ''Please provide AEC (detected or manual)'' st"
  by (simp add: saveBtn_onclick_def)

lemma save_submits:
  assumes "aec = (if manual \<noteq> [] then manual else detected st)" and "aec \<noteq> []"
  shows "\<exists>rest. trace (saveBtn_onclick n p r manual net st) =
           trace st @ save_request n p r aec # rest"
proof -
  have a: "(if (if manual \<noteq> [] then manual else []) \<noteq> [] then (if manual \<noteq> [] then manual else [])
            else if detected st \<noteq> [] then detected st else []) = aec"
    using assms by (cases "manual = []") simp_all
  show ?thesis
  proof (cases net)
    case None
    then show ?thesis using assms(2)
      by (simp add: saveBtn_onclick_def Let_def a emit_def save_request_def API_BASE_def
          split del: if_split)
  next
    case (Some res)
    show ?thesis
    proof (cases "res_json res")
      case None
      with Some show ?thesis using assms(2)
        by (simp add: saveBtn_onclick_def Let_def a emit_def save_request_def API_BASE_def
            split del: if_split)
    next
      case (Some json)
      with \<open>net = Some res\<close> show ?thesis using assms(2)
        by (cases "nullish json")
           (simp_all add: saveBtn_onclick_def Let_def a emit_def alert_def fetchList_request_def
            save_request_def API_BASE_def split del: if_split)
    qed
  qed
qed

lemma placeholder_not_empty: "placeholder \<noteq> []"
  by (simp add: placeholder_def)

lemma handleOcrResult_trace: "trace (handleOcrResult res st) = trace st"
  by (simp add: handleOcrResult_def Let_def)

lemma handleOcrResult_detected:
  "truthy res \<Longrightarrow> nullish (getprop res ''estimated_kwh_per_year'') \<Longrightarrow>
   detected (handleOcrResult res st) = placeholder"
  by (simp add: handleOcrResult_def Let_def)

text \<open>
  C5. Add resolves the annual energy consumption to the manual entry when that is not
  empty and to the detected value otherwise. When the resolved value is empty, Add
  only shows the validation message: no request is issued and nothing else changes.
  Otherwise the first thing Add does is to issue the write request, whose \<open>aec\<close> field
  is the resolved value.
\<close>

theorem save_resolves_aec:
  "(spec_resolved_aec manual (detected st) = [] \<longrightarrow>
      saveBtn_onclick n p r manual net st
        = alert ''Please provide AEC (detected or manual)'' st)
   \<and> (spec_resolved_aec manual (detected st) \<noteq> [] \<longrightarrow>
      (\<exists>rest. new_events st (saveBtn_onclick n p r manual net st) =
         Request POST ''/api/add_appliance''
           (FormData [TextField ''name'' (if n \<noteq> [] then n else ''Unnamed''),
                      TextField ''price'' (if p \<noteq> [] then p else ''0''),
                      TextField ''energy_rate'' (if r \<noteq> [] then r else ''0''),
                      TextField ''aec'' (spec_resolved_aec manual (detected st))]) # rest))"
proof (intro conjI impI)
  assume "spec_resolved_aec manual (detected st) = []"
  then have "manual = []" "detected st = []"
    by (simp_all add: spec_resolved_aec_def split: if_splits)
  then show "saveBtn_onclick n p r manual net st
        = alert ''Please provide AEC (detected or manual)'' st"
    by (rule save_rejected)
next
  assume ne: "spec_resolved_aec manual (detected st) \<noteq> []"
  have "spec_resolved_aec manual (detected st) = (if manual \<noteq> [] then manual else detected st)"
    by (simp add: spec_resolved_aec_def)
  from save_submits [OF this ne] obtain rest where
    "trace (saveBtn_onclick n p r manual net st) =
       trace st @ save_request n p r (spec_resolved_aec manual (detected st)) # rest" by blast
  then have "new_events st (saveBtn_onclick n p r manual net st) =
       save_request n p r (spec_resolved_aec manual (detected st)) # rest"
    by (rule new_events_append)
  then show "\<exists>rest. new_events st (saveBtn_onclick n p r manual net st) =
         Request POST ''/api/add_appliance''
           (FormData [TextField ''name'' (if n \<noteq> [] then n else ''Unnamed''),
                      TextField ''price'' (if p \<noteq> [] then p else ''0''),
                      TextField ''energy_rate'' (if r \<noteq> [] then r else ''0''),
                      TextField ''aec'' (spec_resolved_aec manual (detected st))]) # rest"
    unfolding save_request_def by blast
qed

theorem save_resolves_aec_witness:
  "spec_resolved_aec [] (detected (init_state [] (Plain []) (Plain []))) = []
   \<and> saveBtn_onclick ''Fridge'' ''12000'' ''7'' [] None (init_state [] (Plain []) (Plain []))
       = alert ''Please provide AEC (detected or manual)'' (init_state [] (Plain []) (Plain []))
   \<and> spec_resolved_aec ''400'' (detected (init_state ''350'' (Plain []) (Plain []))) \<noteq> []
   \<and> (\<exists>rest. new_events (init_state ''350'' (Plain []) (Plain []))
          (saveBtn_onclick ''Fridge'' ''12000'' ''7'' ''400'' None
             (init_state ''350'' (Plain []) (Plain []))) =
         Request POST ''/api/add_appliance''
           (FormData [TextField ''name'' ''Fridge'', TextField ''price'' ''12000'',
                      TextField ''energy_rate'' ''7'', TextField ''aec'' ''400'']) # rest)"
  using save_resolves_aec
      [of "[]" "init_state [] (Plain []) (Plain [])" "''Fridge''" "''12000''" "''7''" None]
    save_resolves_aec
      [of "''400''" "init_state ''350'' (Plain []) (Plain [])" "''Fridge''" "''12000''" "''7''" None]
  by (simp add: spec_resolved_aec_def detected_init)

text \<open>
  C10. After an extraction result that is an object without the field
  \<open>estimated_kwh_per_year\<close>, the detected display holds the placeholder, which is not
  empty; an Add with an empty manual entry then issues the write request with the
  placeholder as its \<open>aec\<close> field, instead of showing the validation message.
\<close>

theorem placeholder_submitted_as_aec:
  assumes "map_of kvs ''estimated_kwh_per_year'' = None"
  shows "detected (handleOcrResult (JObj kvs) st) = placeholder
     \<and> placeholder \<noteq> []
     \<and> (\<exists>rest. new_events st (saveBtn_onclick n p r [] net (handleOcrResult (JObj kvs) st)) =
          Request POST ''/api/add_appliance''
            (FormData [TextField ''name'' (if n \<noteq> [] then n else ''Unnamed''),
                       TextField ''price'' (if p \<noteq> [] then p else ''0''),
                       TextField ''energy_rate'' (if r \<noteq> [] then r else ''0''),
                       TextField ''aec'' placeholder]) # rest)"
proof -
  have d: "detected (handleOcrResult (JObj kvs) st) = placeholder"
    using assms by (simp add: handleOcrResult_detected)
  have "placeholder = (if [] \<noteq> ([]::string) then [] else detected (handleOcrResult (JObj kvs) st))"
    using d by simp
  from save_submits [OF this placeholder_not_empty, of n p r net] obtain rest where
    "trace (saveBtn_onclick n p r [] net (handleOcrResult (JObj kvs) st)) =
       trace st @ save_request n p r placeholder # rest"
    unfolding handleOcrResult_trace by blast
  then have "new_events st (saveBtn_onclick n p r [] net (handleOcrResult (JObj kvs) st)) =
       save_request n p r placeholder # rest"
    by (rule new_events_append)
  then have "\<exists>rest. new_events st (saveBtn_onclick n p r [] net (handleOcrResult (JObj kvs) st)) =
          Request POST ''/api/add_appliance''
            (FormData [TextField ''name'' (if n \<noteq> [] then n else ''Unnamed''),
                       TextField ''price'' (if p \<noteq> [] then p else ''0''),
                       TextField ''energy_rate'' (if r \<noteq> [] then r else ''0''),
                       TextField ''aec'' placeholder]) # rest"
    unfolding save_request_def by blast
  with d placeholder_not_empty show ?thesis by blast
qed

theorem placeholder_submitted_as_aec_witness:
  "map_of [(''raw_text'', Prim (JStr ''ENERGY''))] ''estimated_kwh_per_year'' = None
   \<and> detected (handleOcrResult (JObj [(''raw_text'', Prim (JStr ''ENERGY''))])
        (init_state [] (Plain []) (Plain []))) = placeholder
   \<and> placeholder \<noteq> []
   \<and> (\<exists>rest. new_events (init_state [] (Plain []) (Plain []))
          (saveBtn_onclick ''Fridge'' ''12000'' ''7'' [] None
             (handleOcrResult (JObj [(''raw_text'', Prim (JStr ''ENERGY''))])
                (init_state [] (Plain []) (Plain [])))) =
          Request POST ''/api/add_appliance''
            (FormData [TextField ''name'' ''Fridge'', TextField ''price'' ''12000'',
                       TextField ''energy_rate'' ''7'', TextField ''aec'' placeholder]) # rest)"
  using placeholder_submitted_as_aec
      [of "[(''raw_text'', Prim (JStr ''ENERGY''))]" "init_state [] (Plain []) (Plain [])"
          "''Fridge''" "''12000''" "''7''" None]
  by simp

text \<open>
  C8, as stated, fails for a response whose body is not JSON (an error page, say):
  the handler is rejected with a syntax error that nothing catches, and the detected
  display is left as it was, without the placeholder.
\<close>

theorem ocr_non_json_counterexample:
  "detected (uploadInput_onchange (Some ''img'')
      (Some \<lparr>res_ok = False, res_json = None, res_blob = ''Bad Gateway''\<rparr>)
      (init_state [] (Plain []) (Plain []))) \<noteq> placeholder
   \<and> new_events (init_state [] (Plain []) (Plain []))
       (uploadInput_onchange (Some ''img'')
          (Some \<lparr>res_ok = False, res_json = None, res_blob = ''Bad Gateway''\<rparr>)
          (init_state [] (Plain []) (Plain [])))
     = [Request POST ''/api/ocr'' (FormData [FileField ''image'' ''img'' ''capture.jpg'']),
        Rejected SyntaxError]"
  by (simp add: uploadInput_onchange_def sendBlobForOcr_def emit_def new_events_def
      detected_init placeholder_def API_BASE_def)

text \<open>
  C8, amended. For every extraction exchange whose response body is JSON and parses
  to a truthy value (an object, for one), whatever the status, a field
  \<open>estimated_kwh_per_year\<close> that is missing or \<open>null\<close> gives the placeholder in the
  detected display, and the handler does nothing else to the outside than its one
  request: no error. This holds of a capture and of an upload alike.
\<close>

theorem ocr_missing_field_placeholder:
  assumes "res_json res = Some json" and "truthy json"
    and "nullish (getprop json ''estimated_kwh_per_year'')"
  shows "detected (uploadInput_onchange (Some f) (Some res) st) = placeholder
     \<and> new_events st (uploadInput_onchange (Some f) (Some res) st)
         = [Request POST ''/api/ocr'' (FormData [FileField ''image'' f ''capture.jpg''])]
     \<and> detected (captureBtn_onclick (Some f) (Some res) st) = placeholder
     \<and> new_events st (captureBtn_onclick (Some f) (Some res) st)
         = [Request POST ''/api/ocr'' (FormData [FileField ''image'' f ''capture.jpg''])]"
proof -
  have s: "sendBlobForOcr f (Some res) st =
      (Inr json, emit (Request POST ''/api/ocr'' (FormData [FileField ''image'' f ''capture.jpg''])) st)"
    using assms(1) by (simp add: sendBlobForOcr_def API_BASE_def)
  have u: "uploadInput_onchange (Some f) (Some res) st =
      handleOcrResult json
        (emit (Request POST ''/api/ocr'' (FormData [FileField ''image'' f ''capture.jpg''])) st)"
    by (simp add: uploadInput_onchange_def s)
  have c: "captureBtn_onclick (Some f) (Some res) st =
      handleOcrResult json
        (emit (Request POST ''/api/ocr'' (FormData [FileField ''image'' f ''capture.jpg''])) st)"
    by (simp add: captureBtn_onclick_def s)
  have d: "detected (handleOcrResult json
        (emit (Request POST ''/api/ocr'' (FormData [FileField ''image'' f ''capture.jpg''])) st))
      = placeholder"
    using assms(2,3) by (rule handleOcrResult_detected)
  have t: "new_events st (handleOcrResult json
        (emit (Request POST ''/api/ocr'' (FormData [FileField ''image'' f ''capture.jpg''])) st))
      = [Request POST ''/api/ocr'' (FormData [FileField ''image'' f ''capture.jpg''])]"
    by (simp add: new_events_def handleOcrResult_trace emit_def)
  show ?thesis by (simp only: u c d t simp_thms)
qed

theorem ocr_missing_field_placeholder_witness:
  "res_json \<lparr>res_ok = True, res_json = Some (JObj []), res_blob = ''{}''\<rparr> = Some (JObj [])
   \<and> truthy (JObj [])
   \<and> nullish (getprop (JObj []) ''estimated_kwh_per_year'')
   \<and> detected (uploadInput_onchange (Some ''img'')
        (Some \<lparr>res_ok = True, res_json = Some (JObj []), res_blob = ''{}''\<rparr>)
        (init_state [] (Plain []) (Plain []))) = placeholder
   \<and> new_events (init_state [] (Plain []) (Plain []))
        (uploadInput_onchange (Some ''img'')
           (Some \<lparr>res_ok = True, res_json = Some (JObj []), res_blob = ''{}''\<rparr>)
           (init_state [] (Plain []) (Plain [])))
       = [Request POST ''/api/ocr'' (FormData [FileField ''image'' ''img'' ''capture.jpg''])]"
  using ocr_missing_field_placeholder
      [of "\<lparr>res_ok = True, res_json = Some (JObj []), res_blob = ''{}''\<rparr>" "JObj []"
          "''img''" "init_state [] (Plain []) (Plain [])"]
  by simp

end
